theory Spec2Isabelle
  imports Main
begin

section \<open>Strings and HTTP headers\<close>

text \<open>
  Go strings are byte sequences; they are modelled as \<open>string\<close> (a list of 8-bit
  characters). \<open>Split\<close>, \<open>Join\<close> and \<open>HasPrefix\<close> of package \<open>strings\<close> work on the
  bytes and are written out below.

  \<open>strings.ToUpper\<close>, \<open>strings.ToLower\<close> and \<open>strings.TrimSpace\<close> work on the
  Unicode characters that the bytes encode: \<open>ToUpper\<close> maps U+017F to \<open>S\<close>, \<open>TrimSpace\<close>
  removes U+0085 and U+00A0 as well as the ASCII white space. They are functions of the
  standard library, not of this repository, and the model takes them as parameters: what
  is proved of the middlewares is proved for every choice of the three functions, so for
  the standard library's.
\<close>

record strings_pkg =
  ToUpper :: "string \<Rightarrow> string"
  ToLower :: "string \<Rightarrow> string"
  TrimSpace :: "string \<Rightarrow> string"

text \<open>
  On a string of ASCII bytes (\<open>is_ascii\<close>) the three functions are the following:
  letters change case byte by byte, and the white space is the bytes 9 to 13 and 32. On
  other strings the following functions are not the standard library's. \<open>ascii_strings\<close>
  packs them; it stands for the standard library only where a concrete request is
  evaluated, and every request evaluated in this theory has ASCII header values
  (\<open>ex_is_ascii\<close>).
\<close>

definition is_ascii :: "string \<Rightarrow> bool" where
  "is_ascii s = list_all (\<lambda>c. (of_char c :: nat) < 128) s"

definition upper_byte :: "char \<Rightarrow> char" where
  "upper_byte c =
     (let n = (of_char c :: nat) in if 97 \<le> n \<and> n \<le> 122 then char_of (n - 32) else c)"

definition lower_byte :: "char \<Rightarrow> char" where
  "lower_byte c =
     (let n = (of_char c :: nat) in if 65 \<le> n \<and> n \<le> 90 then char_of (n + 32) else c)"

definition ascii_ToUpper :: "string \<Rightarrow> string" where
  "ascii_ToUpper s = map upper_byte s"

definition ascii_ToLower :: "string \<Rightarrow> string" where
  "ascii_ToLower s = map lower_byte s"

definition isSpace :: "char \<Rightarrow> bool" where
  "isSpace c = ((of_char c :: nat) \<in> {9, 10, 11, 12, 13, 32})"

definition ascii_TrimSpace :: "string \<Rightarrow> string" where
  "ascii_TrimSpace s = rev (dropWhile isSpace (rev (dropWhile isSpace s)))"

definition ascii_strings :: strings_pkg where
  "ascii_strings =
     \<lparr>ToUpper = ascii_ToUpper, ToLower = ascii_ToLower, TrimSpace = ascii_TrimSpace\<rparr>"

text \<open>
  \<open>strings.Split(s, sep)\<close> for a separator of one byte (the code splits on \<open>","\<close> and
  on \<open>" "\<close>). The result always has at least one piece: splitting the empty string gives
  one empty piece.
\<close>

fun Split :: "string \<Rightarrow> char \<Rightarrow> string list" where
  "Split [] sep = [[]]"
| "Split (c # cs) sep =
     (if c = sep then [] # Split cs sep
      else (case Split cs sep of [] \<Rightarrow> [[c]] | p # ps \<Rightarrow> (c # p) # ps))"

text \<open>\<open>strings.Join(elems, sep)\<close>.\<close>

fun Join :: "string list \<Rightarrow> string \<Rightarrow> string" where
  "Join [] sep = []"
| "Join [x] sep = x"
| "Join (x # y # ys) sep = x @ sep @ Join (y # ys) sep"

text \<open>\<open>strings.HasPrefix(s, prefix)\<close>.\<close>

definition HasPrefix :: "string \<Rightarrow> string \<Rightarrow> bool" where
  "HasPrefix s p = (length p \<le> length s \<and> take (length p) s = p)"

text \<open>\<open>strconv.Itoa\<close>: the decimal representation of an integer.\<close>

definition digit_char :: "nat \<Rightarrow> char" where
  "digit_char d = char_of (48 + d)"

function decimal :: "nat \<Rightarrow> string" where
  "decimal n = (if n < 10 then [digit_char n] else decimal (n div 10) @ [digit_char (n mod 10)])"
  by pat_completeness auto
termination
  by (relation "measure (\<lambda>n. n)") auto

declare decimal.simps [simp del]

definition Itoa :: "int \<Rightarrow> string" where
  "Itoa i = (if i < 0 then CHR ''-'' # decimal (nat (- i)) else decimal (nat i))"

text \<open>Reading a string of decimal digits back, to say what a decimal string is.\<close>

definition isDigit :: "char \<Rightarrow> bool" where
  "isDigit c = (48 \<le> (of_char c :: nat) \<and> (of_char c :: nat) \<le> 57)"

definition digit_value :: "char \<Rightarrow> nat" where
  "digit_value c = (of_char c :: nat) - 48"

definition decimal_value :: "string \<Rightarrow> nat" where
  "decimal_value s = foldl (\<lambda>acc c. 10 * acc + digit_value c) 0 s"

text \<open>
  \<open>http.Header\<close> is \<open>map[string][]string\<close>. Indexing a missing key gives the nil slice;
  \<open>Get\<close> gives the first value of the key or the empty string; \<open>Set\<close> replaces the
  values of the key by the single given value. \<open>Get\<close> and \<open>Set\<close> canonicalise the key
  first; \<open>Header_Get\<close> and \<open>Header_Set\<close> take the key already in canonical form, which
  every key the CORS middleware passes (a literal such as \<open>"Origin"\<close> or
  \<open>"Access-Control-Allow-Origin"\<close>) is.
\<close>

type_synonym header = "string \<rightharpoonup> string list"

definition Header_index :: "header \<Rightarrow> string \<Rightarrow> string list" where
  "Header_index h k = (case h k of None \<Rightarrow> [] | Some vs \<Rightarrow> vs)"

definition Header_Get :: "header \<Rightarrow> string \<Rightarrow> string" where
  "Header_Get h k = (case Header_index h k of [] \<Rightarrow> [] | v # _ \<Rightarrow> v)"

definition Header_Set :: "header \<Rightarrow> string \<Rightarrow> string \<Rightarrow> header" where
  "Header_Set h k v = h(k \<mapsto> [v])"

section \<open>Requests, responses and contexts\<close>

text \<open>
  The part of \<open>*http.Request\<close> that the middlewares read: the method, \<open>URL.Path\<close>, the
  parsed query (\<open>URL.Query()\<close>), the header map and the body. The header map is a
  reference: an assignment through it changes the request, so the model returns the
  changed request.
\<close>

record request =
  Method :: string
  URL_Path :: string
  URL_Query :: "string \<rightharpoonup> string list"
  Header :: header
  Body :: string

text \<open>The \<open>http.ResponseWriter\<close>: its header map, and the status and body once written.\<close>

record response =
  rw_Header :: header
  rw_Status :: "int option"
  rw_Body :: string

text \<open>
  The request context. \<open>goa.Request(ctx).URL.Path\<close> is the only part the CORS code reads;
  a rule's \<open>Check\<close> function may read anything else, kept in \<open>ctx_Values\<close>.
\<close>

record Context =
  ctx_Path :: string
  ctx_Values :: "string \<rightharpoonup> string"

text \<open>A nil pointer dereference (calling \<open>MatchString\<close> on a nil \<open>*regexp.Regexp\<close>).\<close>

datatype panic = NilPointer

section \<open>CORS: resource definitions\<close>

definition acAllowCredentials :: string where
  "acAllowCredentials = ''Access-Control-Allow-Credentials''"

definition acAllowHeaders :: string where
  "acAllowHeaders = ''Access-Control-Allow-Headers''"

definition acAllowMethods :: string where
  "acAllowMethods = ''Access-Control-Allow-Methods''"

definition acAllowOrigin :: string where
  "acAllowOrigin = ''Access-Control-Allow-Origin''"

definition acExposeHeaders :: string where
  "acExposeHeaders = ''Access-Control-Expose-Headers''"

definition acMaxAge :: string where
  "acMaxAge = ''Access-Control-Max-Age''"

definition acRequestMethod :: string where
  "acRequestMethod = ''Access-Control-Request-Method''"

definition acRequestHeaders :: string where
  "acRequestHeaders = ''Access-Control-Request-Headers''"

text \<open>
  Modelled from the spec: the declaration of \<open>ResourceDefinition\<close> (the spec's
  ResourceRule) is not among the source files; the fields are the ones
  \<open>cors/middleware.go\<close> reads, with the types the spec's data model gives them. A
  \<open>*regexp.Regexp\<close> is modelled by its \<open>MatchString\<close> predicate, \<open>None\<close> being the
  nil pointer; \<open>Check\<close> is the optional guard, \<open>None\<close> being nil. A
  \<open>Specification\<close> is the ordered sequence of rules.
\<close>

record ResourceDefinition =
  Origin :: string
  OriginRegexp :: "(string \<Rightarrow> bool) option"
  Path :: string
  IsPathPrefix :: bool
  Headers :: "string list"
  Methods :: "string list"
  Expose :: "string list"
  MaxAge :: int
  Credentials :: bool
  Vary :: "string list"
  Check :: "(Context \<Rightarrow> bool) option"

type_synonym Specification = "ResourceDefinition list"

text \<open>\<open>FillHeaders\<close> (lines 137-149): five \<open>Set\<close> calls, three of them guarded.\<close>

definition FillHeaders :: "ResourceDefinition \<Rightarrow> string \<Rightarrow> header \<Rightarrow> header" where
  "FillHeaders res origin dest =
     (let dest = Header_Set dest acAllowOrigin origin;
          dest = Header_Set dest acAllowMethods (Join (Methods res) '', '');
          dest = (if length (Expose res) > 0
                  then Header_Set dest acExposeHeaders (Join (Expose res) '', '') else dest);
          dest = (if MaxAge res > 0
                  then Header_Set dest acMaxAge (Itoa (MaxAge res)) else dest);
          dest = (if Credentials res
                  then Header_Set dest acAllowCredentials ''true'' else dest)
      in dest)"

text \<open>\<open>OriginAllowed\<close> (lines 151-156); it panics on a rule with neither origin nor pattern.\<close>

definition OriginAllowed :: "ResourceDefinition \<Rightarrow> string \<Rightarrow> panic + bool" where
  "OriginAllowed res origin =
     (if Origin res \<noteq> '''' then Inr (Origin res = ''*'' \<or> Origin res = origin)
      else (case OriginRegexp res of
              None \<Rightarrow> Inl NilPointer
            | Some re \<Rightarrow> Inr (re origin)))"

text \<open>\<open>PathMatches\<close> (lines 159-164).\<close>

definition PathMatches :: "ResourceDefinition \<Rightarrow> string \<Rightarrow> bool" where
  "PathMatches res path =
     (if IsPathPrefix res then HasPrefix path (Path res) else path = Path res)"

text \<open>
  \<open>RequestResource\<close> (lines 167-179): the loop over the rules, leaving at the first rule
  that passes the three tests. \<open>&&\<close> evaluates \<open>OriginAllowed\<close> first.
\<close>

fun RequestResource_loop ::
  "Specification \<Rightarrow> Context \<Rightarrow> string \<Rightarrow> string \<Rightarrow> panic + ResourceDefinition option" where
  "RequestResource_loop [] ctx origin path = Inr None"
| "RequestResource_loop (res # rest) ctx origin path =
     (case OriginAllowed res origin of
        Inl p \<Rightarrow> Inl p
      | Inr allowed \<Rightarrow>
          if allowed \<and> PathMatches res path
          then (if (case Check res of None \<Rightarrow> True | Some check \<Rightarrow> check ctx)
                then Inr (Some res)
                else RequestResource_loop rest ctx origin path)
          else RequestResource_loop rest ctx origin path)"

definition RequestResource ::
  "Specification \<Rightarrow> Context \<Rightarrow> string \<Rightarrow> panic + ResourceDefinition option" where
  "RequestResource v ctx origin = RequestResource_loop v ctx origin (ctx_Path ctx)"

text \<open>\<open>PathResource\<close> (lines 182-196).\<close>

fun PathResource :: "Specification \<Rightarrow> string \<Rightarrow> ResourceDefinition option" where
  "PathResource [] path = None"
| "PathResource (r # rest) path =
     (if IsPathPrefix r
      then (if HasPrefix path (Path r) then Some r else PathResource rest path)
      else if Path r = path then Some r
      else PathResource rest path)"

section \<open>CORS: the middleware\<close>

text \<open>The search for the requested method (lines 45-51).\<close>

fun method_found :: "string list \<Rightarrow> string \<Rightarrow> bool" where
  "method_found [] acMethod = False"
| "method_found (m # ms) acMethod = (if m = acMethod then True else method_found ms acMethod)"

text \<open>
  The requested headers (lines 56-64): every value of \<open>Access-Control-Request-Headers\<close>
  is split on commas and each piece trimmed with \<open>strings.TrimSpace\<close>. The parameter
  \<open>strings\<close> is the package of that name.
\<close>

fun splat_headers :: "strings_pkg \<Rightarrow> string list \<Rightarrow> string list" where
  "splat_headers strings [] = []"
| "splat_headers strings (h # hs) =
     map (TrimSpace strings) (Split h CHR '','') @ splat_headers strings hs"

text \<open>
  The check of the requested headers (lines 66-77). The flag \<open>ok\<close> is declared before the
  outer loop and only ever assigned \<open>true\<close>; both loops carry it. The inner loop runs over
  the rule's headers and leaves at the first that is \<open>"*"\<close> or equal to \<open>h\<close>; the outer
  loop leaves when \<open>ok\<close> is still false after an inner loop.
\<close>

fun headers_inner :: "string \<Rightarrow> string list \<Rightarrow> bool \<Rightarrow> bool" where
  "headers_inner h [] ok = ok"
| "headers_inner h (h2 # rest) ok =
     (if h2 = ''*'' \<or> h = h2 then True else headers_inner h rest ok)"

fun headers_outer :: "string list \<Rightarrow> string list \<Rightarrow> bool \<Rightarrow> bool" where
  "headers_outer [] allowed ok = ok"
| "headers_outer (h # hs) allowed ok =
     (let ok = headers_inner h allowed ok
      in if \<not> ok then ok else headers_outer hs allowed ok)"

definition headers_ok :: "string list \<Rightarrow> string list \<Rightarrow> bool" where
  "headers_ok headers allowed = headers_outer headers allowed False"

text \<open>
  The block guarded by \<open>origin != ""\<close> (lines 35-86). Every \<open>goto handleRequest\<close> leaves
  it with the current \<open>res\<close>, \<open>originHeader\<close> and response writer; so does its normal end.
  The requested method is read with \<open>strings.ToUpper\<close>.
\<close>

definition preflight ::
  "strings_pkg \<Rightarrow> Specification \<Rightarrow> Context \<Rightarrow> response \<Rightarrow> request \<Rightarrow> header \<Rightarrow> string
     \<Rightarrow> panic + (ResourceDefinition option \<times> string \<times> response)" where
  "preflight strings spec ctx rw req header origin =
     (if origin \<noteq> '''' then
        (let originHeader = origin in
         case RequestResource spec ctx origin of
           Inl p \<Rightarrow> Inl p
         | Inr None \<Rightarrow> Inr (None, originHeader, rw)
         | Inr (Some res) \<Rightarrow>
             (let acMethod = ToUpper strings (Header_Get header acRequestMethod) in
              if Method req \<noteq> ''OPTIONS'' \<or> acMethod = '''' then Inr (Some res, originHeader, rw)
              else if \<not> method_found (Methods res) acMethod then Inr (Some res, originHeader, rw)
              else
                (let headers = splat_headers strings (Header_index header acRequestHeaders) in
                 if length headers > 0 \<and> \<not> headers_ok headers (Headers res)
                 then Inr (Some res, originHeader, rw)
                 else
                   (let originHeader =
                          (if Origin res = ''*'' \<and> \<not> Credentials res then ''*'' else originHeader);
                        rw = rw\<lparr>rw_Header :=
                                 Header_Set (rw_Header rw) acAllowHeaders (Join headers '', '')\<rparr>
                    in Inr (Some res, originHeader, rw)))))
      else Inr (None, '''', rw))"

text \<open>
  The Vary step (lines 94-103). \<open>header\<close> is \<open>req.Header\<close>, so the assignment
  \<open>header["Vary"] = v\<close> stores into the header map of the request.
\<close>

definition apply_Vary :: "ResourceDefinition option \<Rightarrow> request \<Rightarrow> request" where
  "apply_Vary res req =
     (case res of
        None \<Rightarrow> req
      | Some r \<Rightarrow>
          (let v = Header_index (Header req) ''Vary'';
               v = (if length (Vary r) > 0 then v @ Vary r else v @ [''Origin''])
           in req\<lparr>Header := (Header req)(''Vary'' \<mapsto> v)\<rparr>))"

text \<open>The code from the label \<open>handleRequest\<close> on (lines 87-104), ending in the call of \<open>h\<close>.\<close>

definition handleRequest ::
  "Specification \<Rightarrow> (Context \<Rightarrow> response \<Rightarrow> request \<Rightarrow> 'r) \<Rightarrow> Context \<Rightarrow> response \<Rightarrow> request
     \<Rightarrow> ResourceDefinition option \<Rightarrow> string \<Rightarrow> 'r" where
  "handleRequest spec h ctx rw req res originHeader =
     (case res of
        Some r \<Rightarrow>
          h ctx (rw\<lparr>rw_Header := FillHeaders r originHeader (rw_Header rw)\<rparr>)
            (apply_Vary (Some r) req)
      | None \<Rightarrow> h ctx rw (apply_Vary (PathResource spec (URL_Path req)) req))"

text \<open>The origin of the request (lines 29-32): \<open>Origin\<close>, or else \<open>X-Origin\<close>.\<close>

definition effective_origin :: "header \<Rightarrow> string" where
  "effective_origin header =
     (let origin = Header_Get header ''Origin''
      in if origin = '''' then Header_Get header ''X-Origin'' else origin)"

text \<open>
  \<open>Middleware\<close> (lines 25-107). The result is the panic of \<open>RequestResource\<close>, or what the
  next handler \<open>h\<close> returns for the context, the response writer and the request as the
  middleware leaves them.
\<close>

definition Middleware ::
  "strings_pkg \<Rightarrow> Specification \<Rightarrow> (Context \<Rightarrow> response \<Rightarrow> request \<Rightarrow> 'r)
     \<Rightarrow> Context \<Rightarrow> response \<Rightarrow> request
     \<Rightarrow> panic + 'r" where
  "Middleware strings spec h ctx rw req =
     (let header = Header req;
          origin = effective_origin header
      in case preflight strings spec ctx rw req header origin of
           Inl p \<Rightarrow> Inl p
         | Inr (res, originHeader, rw) \<Rightarrow>
             Inr (handleRequest spec h ctx rw req res originHeader))"

section \<open>JWT: the middleware\<close>

text \<open>
  The fields of the JWT \<open>Specification\<close> that the middleware reads. \<open>ValidationFunc\<close> is
  only handed on to \<open>jwt.Parse\<close>, a function of the token library, which is a parameter
  of the model: it gives an error or a token, and a token carries the flag \<open>Valid\<close>.
  \<open>Header.Get\<close> canonicalises its key, here a configured name, with
  \<open>CanonicalMIMEHeaderKey\<close> of the standard library, a parameter too, as is package
  \<open>strings\<close>, whose \<open>ToLower\<close> reads the scheme of the token header.
\<close>

record jwt_Specification =
  TokenHeader :: string
  TokenParam :: string
  AllowParam :: bool
  AuthOptions :: bool

record Token =
  Raw :: string
  Valid :: bool

record jwt_lib =
  Strings :: strings_pkg
  Parse :: "string \<Rightarrow> string + Token"
  CanonicalMIMEHeaderKey :: "string \<Rightarrow> string"

text \<open>\<open>url.Values.Get\<close>: the first value of the key, or the empty string.\<close>

definition Query_Get :: "(string \<rightharpoonup> string list) \<Rightarrow> string \<Rightarrow> string" where
  "Query_Get q k = (case q k of None \<Rightarrow> [] | Some [] \<Rightarrow> [] | Some (v # _) \<Rightarrow> v)"

text \<open>\<open>GetToken\<close> (lines 119-142).\<close>

definition GetToken :: "jwt_lib \<Rightarrow> request \<Rightarrow> jwt_Specification \<Rightarrow> string + Token" where
  "GetToken lib req spec =
     (let header = Header_Get (Header req) (CanonicalMIMEHeaderKey lib (TokenHeader spec)) in
      if header \<noteq> '''' then
        (let parts = Split header CHR '' '' in
         if length parts \<noteq> 2 \<or> ToLower (Strings lib) (parts ! 0) \<noteq> ''bearer''
         then Inl ''Malformed token header''
         else (let tok = parts ! 1 in
               if tok = '''' then Inl ''no token'' else Parse lib tok))
      else
        (let tok = (if AllowParam spec then Query_Get (URL_Query req) (TokenParam spec) else '''')
         in if tok = '''' then Inl ''no token'' else Parse lib tok))"

text \<open>
  What a middleware does with a request: it answers itself (\<open>Send\<close>, with status and
  body), or it hands the request to the next handler, whose result it returns.
\<close>

datatype 'r outcome = Send int string | Next 'r

text \<open>The defaults that \<open>Middleware\<close> stores into the specification (lines 149-154).\<close>

definition jwt_defaults :: "jwt_Specification \<Rightarrow> jwt_Specification" where
  "jwt_defaults spec =
     (let spec = (if TokenHeader spec = '''' then spec\<lparr>TokenHeader := ''Authorization''\<rparr> else spec);
          spec = (if TokenParam spec = '''' then spec\<lparr>TokenParam := ''token''\<rparr> else spec)
      in spec)"

text \<open>
  The JWT \<open>Middleware\<close> (lines 148-175). \<open>StatusText\<close> is the status text table of
  \<open>net/http\<close>, a parameter. The handler receives the token that
  \<open>context.WithValue(ctx, JWTKey, token)\<close> stores, \<open>None\<close> when the context is passed on
  as it came.
\<close>

definition jwt_Middleware ::
  "jwt_lib \<Rightarrow> (int \<Rightarrow> string) \<Rightarrow> jwt_Specification
     \<Rightarrow> (Token option \<Rightarrow> Context \<Rightarrow> response \<Rightarrow> request \<Rightarrow> 'r)
     \<Rightarrow> Context \<Rightarrow> response \<Rightarrow> request \<Rightarrow> 'r outcome" where
  "jwt_Middleware lib StatusText spec0 h ctx rw req =
     (let spec = jwt_defaults spec0 in
      if \<not> AuthOptions spec \<and> Method req = ''OPTIONS'' then Next (h None ctx rw req)
      else
        (case GetToken lib req spec of
           Inl err \<Rightarrow> Send 401 (StatusText 401)
         | Inr token \<Rightarrow>
             if \<not> Valid token then Send 401 ''Invalid Token''
             else Next (h (Some token) ctx rw req)))"

section \<open>RequireHeader\<close>

text \<open>
  \<open>RequireHeader\<close> (lines 234-264 of the middleware package). The two patterns are
  \<open>*regexp.Regexp\<close>, modelled by their \<open>MatchString\<close> predicates with \<open>None\<close> for nil.
  The handler of this package takes the one \<open>*goa.Context\<close>, which holds the request.
  \<open>CanonicalMIMEHeaderKey\<close> and \<open>StatusText\<close> are the standard library's, taken as
  parameters.
\<close>

definition RequireHeader ::
  "(string \<Rightarrow> string) \<Rightarrow> (int \<Rightarrow> string)
     \<Rightarrow> (string \<Rightarrow> bool) option \<Rightarrow> string \<Rightarrow> (string \<Rightarrow> bool) option \<Rightarrow> int
     \<Rightarrow> (request \<Rightarrow> 'r) \<Rightarrow> request \<Rightarrow> 'r outcome" where
  "RequireHeader canonicalKey StatusText pathPattern requiredHeaderName requiredHeaderValue
       failureStatus h req =
     (if (case pathPattern of None \<Rightarrow> True | Some p \<Rightarrow> p (URL_Path req)) then
        (let header = Header req;
             headerValue = Header_Get header (canonicalKey requiredHeaderName);
             matched =
               (if length headerValue > 0
                then (case requiredHeaderValue of None \<Rightarrow> True | Some v \<Rightarrow> v headerValue)
                else False)
         in if matched then Next (h req)
            else Send failureStatus (StatusText failureStatus))
      else Next (h req))"

section \<open>The specification's notions\<close>

text \<open>
  The specification's rule match, in its words: the origin matches (exact equality, or the
  rule's origin is \<open>*\<close>, or the pattern matches when the rule has a pattern instead of an
  exact origin), the path matches (prefix match when \<open>isPrefix\<close> is set, exact equality
  otherwise), and the guard, when present, returns true.
\<close>

definition rule_matches :: "Context \<Rightarrow> string \<Rightarrow> ResourceDefinition \<Rightarrow> bool" where
  "rule_matches ctx origin res =
     ((if Origin res \<noteq> '''' then Origin res = origin \<or> Origin res = ''*''
       else (case OriginRegexp res of None \<Rightarrow> False | Some re \<Rightarrow> re origin))
      \<and> (if IsPathPrefix res then HasPrefix (ctx_Path ctx) (Path res)
         else ctx_Path ctx = Path res)
      \<and> (case Check res of None \<Rightarrow> True | Some guard \<Rightarrow> guard ctx))"

text \<open>
  The data model's condition on a rule: its origin is an exact string (or \<open>*\<close>) or a
  pattern, so one of the two is there.
\<close>

definition has_origin :: "ResourceDefinition \<Rightarrow> bool" where
  "has_origin res = (Origin res \<noteq> '''' \<or> OriginRegexp res \<noteq> None)"

text \<open>
  A preflight request: method \<open>OPTIONS\<close> and a non-empty
  \<open>Access-Control-Request-Method\<close>, read in upper case; its requested headers are the
  split and trimmed entries of \<open>Access-Control-Request-Headers\<close>. Upper case and
  trimming are those of the package \<open>strings\<close> given.
\<close>

definition requested_method :: "strings_pkg \<Rightarrow> request \<Rightarrow> string" where
  "requested_method strings req = ToUpper strings (Header_Get (Header req) acRequestMethod)"

definition requested_headers :: "strings_pkg \<Rightarrow> request \<Rightarrow> string list" where
  "requested_headers strings req =
     splat_headers strings (Header_index (Header req) acRequestHeaders)"

definition is_preflight :: "strings_pkg \<Rightarrow> request \<Rightarrow> bool" where
  "is_preflight strings req =
     (Method req = ''OPTIONS'' \<and> requested_method strings req \<noteq> '''')"

text \<open>
  The preflight that the middleware accepts for a rule: the requested method is one of
  the rule's methods and the middleware's check of the requested headers, when there are
  any, succeeds.
\<close>

definition preflight_accepted ::
  "strings_pkg \<Rightarrow> ResourceDefinition \<Rightarrow> request \<Rightarrow> bool" where
  "preflight_accepted strings res req =
     (is_preflight strings req \<and> requested_method strings req \<in> set (Methods res)
      \<and> (requested_headers strings req = []
         \<or> headers_ok (requested_headers strings req) (Headers res)))"

text \<open>
  For \<open>RequireHeader\<close>: the path is in scope (the pattern is nil or matches the path), and
  the header fails the check (its value is empty, or there is a value pattern that does
  not match it).
\<close>

definition path_in_scope :: "(string \<Rightarrow> bool) option \<Rightarrow> request \<Rightarrow> bool" where
  "path_in_scope pathPattern req =
     (case pathPattern of None \<Rightarrow> True | Some p \<Rightarrow> p (URL_Path req))"

definition header_fails :: "(string \<Rightarrow> bool) option \<Rightarrow> string \<Rightarrow> bool" where
  "header_fails requiredHeaderValue headerValue =
     (headerValue = '''' \<or>
      (case requiredHeaderValue of None \<Rightarrow> False | Some v \<Rightarrow> \<not> v headerValue))"

section \<open>Example rules and requests\<close>

text \<open>
  The rule of the package's tests, \<open>cors.Origin("http://authorized.com", ...)\<close> with
  resource \<open>/\<close>, methods \<open>GET\<close> and headers \<open>foo\<close>; the same rule for any origin; and
  a rule given by a pattern, with a path prefix, credentials, a maximal age, exposed
  headers, a Vary list and a guard.
\<close>

definition rule_authorized :: ResourceDefinition where
  "rule_authorized =
     \<lparr>Origin = ''http://authorized.com'', OriginRegexp = None, Path = ''/'',
      IsPathPrefix = False, Headers = [''foo''], Methods = [''GET''], Expose = [],
      MaxAge = 0, Credentials = False, Vary = [], Check = None\<rparr>"

definition rule_any :: ResourceDefinition where
  "rule_any = rule_authorized\<lparr>Origin := ''*''\<rparr>"

definition rule_pattern :: ResourceDefinition where
  "rule_pattern =
     \<lparr>Origin = '''', OriginRegexp = Some (\<lambda>origin. HasPrefix origin ''https://''),
      Path = ''/api/'', IsPathPrefix = True, Headers = [''*''],
      Methods = [''GET'', ''POST''], Expose = [''X-Time'', ''X-Id''], MaxAge = 600,
      Credentials = True, Vary = [''Origin'', ''Accept''],
      Check = Some (\<lambda>ctx. ctx_Values ctx ''cors'' = Some ''on'')\<rparr>"

definition ctx_root :: Context where
  "ctx_root = \<lparr>ctx_Path = ''/'', ctx_Values = Map.empty\<rparr>"

definition ctx_api :: Context where
  "ctx_api = \<lparr>ctx_Path = ''/api/users'', ctx_Values = [''cors'' \<mapsto> ''on'']\<rparr>"

definition ctx_api_off :: Context where
  "ctx_api_off = \<lparr>ctx_Path = ''/api/users'', ctx_Values = Map.empty\<rparr>"

definition rw_empty :: response where
  "rw_empty = \<lparr>rw_Header = Map.empty, rw_Status = None, rw_Body = ''''\<rparr>"

text \<open>A request for \<open>/\<close> with the given method and headers.\<close>

definition root_request :: "string \<Rightarrow> header \<Rightarrow> request" where
  "root_request m hdr =
     \<lparr>Method = m, URL_Path = ''/'', URL_Query = Map.empty, Header = hdr, Body = ''''\<rparr>"

text \<open>A simple \<open>GET\<close> request from the authorized origin, and one without any origin.\<close>

definition get_request :: request where
  "get_request = root_request ''GET'' [''Origin'' \<mapsto> [''http://authorized.com'']]"

definition plain_request :: request where
  "plain_request = root_request ''GET'' Map.empty"

text \<open>
  A preflight request from the authorized origin for the given method and the given
  values of \<open>Access-Control-Request-Headers\<close>.
\<close>

definition preflight_request :: "string \<Rightarrow> string list \<Rightarrow> request" where
  "preflight_request m hs =
     root_request ''OPTIONS''
       [''Origin'' \<mapsto> [''http://authorized.com''],
        ''Access-Control-Request-Method'' \<mapsto> [m],
        ''Access-Control-Request-Headers'' \<mapsto> hs]"

text \<open>
  Handlers that return what they find under a key: in the header map of the response
  writer, and in the header map of the request.
\<close>

definition response_header :: "string \<Rightarrow> Context \<Rightarrow> response \<Rightarrow> request \<Rightarrow> string list option" where
  "response_header k ctx rw req = rw_Header rw k"

definition request_header :: "string \<Rightarrow> Context \<Rightarrow> response \<Rightarrow> request \<Rightarrow> string list option" where
  "request_header k ctx rw req = Header req k"

text \<open>
  For the JWT middleware: a specification with every field at its zero value, a token
  library that rejects every token, a few entries of the status text table, a request
  whose \<open>Authorization\<close> header is not of the form \<open>Bearer <token>\<close>, and a handler
  that returns the token it was given.
\<close>

definition jwt_spec_plain :: jwt_Specification where
  "jwt_spec_plain =
     \<lparr>TokenHeader = '''', TokenParam = '''', AllowParam = False, AuthOptions = False\<rparr>"

definition jwt_lib_reject :: jwt_lib where
  "jwt_lib_reject =
     \<lparr>Strings = ascii_strings, Parse = (\<lambda>tok. Inl ''token is invalid''),
      CanonicalMIMEHeaderKey = (\<lambda>k. k)\<rparr>"

definition StatusText_short :: "int \<Rightarrow> string" where
  "StatusText_short code =
     (if code = 401 then ''Unauthorized'' else if code = 403 then ''Forbidden'' else '''')"

definition garbage_token_request :: "string \<Rightarrow> request" where
  "garbage_token_request m = root_request m [''Authorization'' \<mapsto> [''garbage'']]"

definition given_token ::
  "Token option \<Rightarrow> Context \<Rightarrow> response \<Rightarrow> request \<Rightarrow> Token option" where
  "given_token tok ctx rw req = tok"

text \<open>
  For \<open>RequireHeader\<close>: a request for \<open>/api/users\<close>, the pattern of the paths under
  \<open>/api/\<close>, a value pattern that matches one value only, and a handler that returns the
  path of the request.
\<close>

definition api_request :: "header \<Rightarrow> request" where
  "api_request hdr =
     \<lparr>Method = ''GET'', URL_Path = ''/api/users'', URL_Query = Map.empty, Header = hdr,
      Body = ''''\<rparr>"

definition api_paths :: "(string \<Rightarrow> bool) option" where
  "api_paths = Some (\<lambda>path. HasPrefix path ''/api/'')"

definition secret_value :: "(string \<Rightarrow> bool) option" where
  "secret_value = Some (\<lambda>v. v = ''secret'')"

definition seen_path :: "request \<Rightarrow> string" where
  "seen_path req = URL_Path req"

section \<open>Facts about the model\<close>

lemmas header_names =
  acAllowCredentials_def acAllowHeaders_def acAllowMethods_def acAllowOrigin_def
  acExposeHeaders_def acMaxAge_def acRequestMethod_def acRequestHeaders_def

lemmas string_functions =
  ascii_strings_def ascii_ToUpper_def upper_byte_def ascii_ToLower_def lower_byte_def
  ascii_TrimSpace_def isSpace_def HasPrefix_def

lemmas header_functions = Header_index_def Header_Get_def Header_Set_def

lemmas examples =
  rule_authorized_def rule_any_def rule_pattern_def ctx_root_def ctx_api_def ctx_api_off_def
  rw_empty_def
  root_request_def get_request_def plain_request_def preflight_request_def
  response_header_def request_header_def

subsection \<open>Strings\<close>

lemma HasPrefix_iff: "HasPrefix s p \<longleftrightarrow> (\<exists>t. s = p @ t)"
proof
  assume "HasPrefix s p"
  then have "s = p @ drop (length p) s"
    by (metis HasPrefix_def append_take_drop_id)
  then show "\<exists>t. s = p @ t" ..
next
  assume "\<exists>t. s = p @ t"
  then show "HasPrefix s p" by (auto simp: HasPrefix_def)
qed

lemma Split_not_empty: "Split s sep \<noteq> []"
  by (induction s) (auto split: list.splits)

text \<open>\<open>Itoa\<close> of a positive number is a string of digits that reads back as the number.\<close>

lemma digit_value_digit_char: "d < 10 \<Longrightarrow> digit_value (digit_char d) = d"
  by (simp add: digit_value_def digit_char_def)

lemma isDigit_digit_char: "d < 10 \<Longrightarrow> isDigit (digit_char d)"
  by (simp add: isDigit_def digit_char_def)

lemma decimal_value_snoc: "decimal_value (s @ [c]) = 10 * decimal_value s + digit_value c"
  by (simp add: decimal_value_def)

lemma decimal_value_decimal: "decimal_value (decimal n) = n"
proof (induction n rule: decimal.induct)
  case (1 n)
  show ?case
  proof (cases "n < 10")
    case True
    then show ?thesis
      by (subst decimal.simps) (simp add: decimal_value_def digit_value_digit_char)
  next
    case False
    with 1 have "decimal_value (decimal (n div 10)) = n div 10" by simp
    with False show ?thesis
      by (subst decimal.simps) (simp add: decimal_value_snoc digit_value_digit_char)
  qed
qed

lemma decimal_digits: "list_all isDigit (decimal n)"
proof (induction n rule: decimal.induct)
  case (1 n)
  show ?case
  proof (cases "n < 10")
    case True
    then show ?thesis
      by (subst decimal.simps) (simp add: isDigit_digit_char)
  next
    case False
    with 1 have "list_all isDigit (decimal (n div 10))" by simp
    with False show ?thesis
      by (subst decimal.simps) (simp add: isDigit_digit_char)
  qed
qed

lemma Itoa_positive:
  assumes "0 < i"
  shows "list_all isDigit (Itoa i) \<and> int (decimal_value (Itoa i)) = i"
  using assms by (simp add: Itoa_def decimal_digits decimal_value_decimal)

subsection \<open>The loops\<close>

lemma method_found_iff: "method_found ms m \<longleftrightarrow> m \<in> set ms"
  by (induction ms) auto

lemma headers_inner_True: "headers_inner h allowed True"
  by (induction allowed) auto

lemma headers_inner_False:
  "headers_inner h allowed False \<longleftrightarrow> ''*'' \<in> set allowed \<or> h \<in> set allowed"
  by (induction allowed) auto

lemma headers_outer_True: "headers_outer hs allowed True"
  by (induction hs) (auto simp: headers_inner_True)

text \<open>Only the first requested header decides.\<close>

lemma headers_ok_Cons:
  "headers_ok (h # hs) allowed \<longleftrightarrow> ''*'' \<in> set allowed \<or> h \<in> set allowed"
  by (simp add: headers_ok_def headers_inner_False headers_outer_True)

lemma headers_ok_all:
  assumes "''*'' \<in> set allowed \<or> set hs \<subseteq> set allowed" and "hs \<noteq> []"
  shows "headers_ok hs allowed"
  using assms by (cases hs) (auto simp: headers_ok_Cons)

subsection \<open>FillHeaders\<close>

lemma FillHeaders_AllowOrigin: "FillHeaders res origin dest acAllowOrigin = Some [origin]"
  by (simp add: FillHeaders_def Header_Set_def header_names Let_def)

lemma FillHeaders_AllowMethods:
  "FillHeaders res origin dest acAllowMethods = Some [Join (Methods res) '', '']"
  by (simp add: FillHeaders_def Header_Set_def header_names Let_def)

lemma FillHeaders_other:
  assumes "k \<notin> {acAllowOrigin, acAllowMethods, acExposeHeaders, acMaxAge, acAllowCredentials}"
  shows "FillHeaders res origin dest k = dest k"
  using assms by (simp add: FillHeaders_def Header_Set_def Let_def)

lemma FillHeaders_AllowHeaders:
  "FillHeaders res origin dest acAllowHeaders = dest acAllowHeaders"
  by (rule FillHeaders_other) (simp add: header_names)

lemma FillHeaders_Vary: "FillHeaders res origin dest ''Vary'' = dest ''Vary''"
  by (rule FillHeaders_other) (simp add: header_names)

subsection \<open>The middleware, case by case\<close>

lemma preflight_no_origin: "preflight strings spec ctx rw req header '''' = Inr (None, '''', rw)"
  by (simp add: preflight_def)

lemma Middleware_no_origin:
  assumes "effective_origin (Header req) = ''''"
  shows "Middleware strings spec h ctx rw req =
           Inr (h ctx rw (apply_Vary (PathResource spec (URL_Path req)) req))"
  using assms by (simp add: Middleware_def preflight_no_origin handleRequest_def)

lemma Middleware_unmatched:
  assumes "effective_origin (Header req) \<noteq> ''''"
    and "RequestResource spec ctx (effective_origin (Header req)) = Inr None"
  shows "Middleware strings spec h ctx rw req =
           Inr (h ctx rw (apply_Vary (PathResource spec (URL_Path req)) req))"
  using assms by (simp add: Middleware_def preflight_def handleRequest_def)

lemma Middleware_panic:
  assumes "effective_origin (Header req) \<noteq> ''''"
    and "RequestResource spec ctx (effective_origin (Header req)) = Inl p"
  shows "Middleware strings spec h ctx rw req = Inl p"
  using assms by (simp add: Middleware_def preflight_def)

lemma preflight_matched:
  assumes "origin \<noteq> ''''"
    and "origin = effective_origin (Header req)"
    and "RequestResource spec ctx origin = Inr (Some res)"
  shows "preflight strings spec ctx rw req (Header req) origin =
           Inr (Some res,
                (if preflight_accepted strings res req \<and> Origin res = ''*'' \<and> \<not> Credentials res
                 then ''*'' else origin),
                (if preflight_accepted strings res req
                 then rw\<lparr>rw_Header := Header_Set (rw_Header rw) acAllowHeaders
                                          (Join (requested_headers strings req) '', '')\<rparr>
                 else rw))"
  using assms
  by (simp add: preflight_def Let_def method_found_iff preflight_accepted_def is_preflight_def
        requested_method_def requested_headers_def)

lemma Middleware_matched:
  assumes "effective_origin (Header req) \<noteq> ''''"
    and "RequestResource spec ctx (effective_origin (Header req)) = Inr (Some res)"
  shows "Middleware strings spec h ctx rw req =
           Inr (h ctx
                  (rw\<lparr>rw_Header :=
                        FillHeaders res
                          (if preflight_accepted strings res req \<and> Origin res = ''*'' \<and> \<not> Credentials res
                           then ''*'' else effective_origin (Header req))
                          (if preflight_accepted strings res req
                           then Header_Set (rw_Header rw) acAllowHeaders
                                  (Join (requested_headers strings req) '', '')
                           else rw_Header rw)\<rparr>)
                  (apply_Vary (Some res) req))"
proof -
  let ?origin = "effective_origin (Header req)"
  have "preflight strings spec ctx rw req (Header req) ?origin =
           Inr (Some res,
                (if preflight_accepted strings res req \<and> Origin res = ''*'' \<and> \<not> Credentials res
                 then ''*'' else ?origin),
                (if preflight_accepted strings res req
                 then rw\<lparr>rw_Header := Header_Set (rw_Header rw) acAllowHeaders
                                          (Join (requested_headers strings req) '', '')\<rparr>
                 else rw))"
    using assms by (intro preflight_matched) simp_all
  then show ?thesis
    by (simp add: Middleware_def Let_def handleRequest_def)
qed

section \<open>Resource matching\<close>

lemma RequestResource_loop_step:
  assumes "has_origin res"
  shows "RequestResource_loop (res # rest) ctx origin (ctx_Path ctx) =
           (if rule_matches ctx origin res then Inr (Some res)
            else RequestResource_loop rest ctx origin (ctx_Path ctx))"
  using assms
  by (auto simp: has_origin_def rule_matches_def OriginAllowed_def PathMatches_def
           split: option.splits)

lemma RequestResource_loop_find:
  assumes "\<forall>res\<in>set v. has_origin res"
  shows "RequestResource_loop v ctx origin (ctx_Path ctx) = Inr (find (rule_matches ctx origin) v)"
  using assms
proof (induction v)
  case Nil
  then show ?case by simp
next
  case (Cons res rest)
  then have "has_origin res" and "\<forall>r\<in>set rest. has_origin r" by simp_all
  then show ?case
    using Cons.IH by (simp only: RequestResource_loop_step find.simps split: if_splits) simp
qed

lemma ex_has_origin:
  "has_origin rule_pattern" "has_origin rule_authorized" "has_origin rule_any"
  by (simp_all add: has_origin_def examples)

lemma ex_matches:
  "\<not> rule_matches ctx_root ''http://authorized.com'' rule_pattern"
  "rule_matches ctx_root ''http://authorized.com'' rule_authorized"
  "rule_matches ctx_root ''http://authorized.com'' rule_any"
  by (simp_all add: rule_matches_def examples string_functions)

lemma ex_matches_api:
  "\<not> rule_matches ctx_api ''https://a.org'' rule_authorized"
  "rule_matches ctx_api ''https://a.org'' rule_pattern"
  "\<not> rule_matches ctx_api_off ''https://a.org'' rule_authorized"
  "\<not> rule_matches ctx_api_off ''https://a.org'' rule_pattern"
  by (simp_all add: rule_matches_def examples string_functions)

text \<open>
  Claim C7. For every specification whose rules each have an origin or a pattern, every
  origin and every path, \<open>RequestResource\<close> returns the first rule, in the configured
  order, that matches in the specification's sense (origin, path and guard), and no rule
  when none matches: it is \<open>find\<close> of the match over the list of rules, and it does not
  panic.
\<close>

theorem RequestResource_first_match:
  assumes "\<forall>res\<in>set v. has_origin res"
  shows "RequestResource v ctx origin = Inr (find (rule_matches ctx origin) v)"
  using assms by (simp add: RequestResource_def RequestResource_loop_find)

text \<open>
  Of three rules the first does not match, the second and the third do: the second is
  returned. A rule with a pattern, a path prefix and a guard is returned when all three
  hold, and no rule is returned when the guard says no.
\<close>

theorem RequestResource_first_match_witness:
  "has_origin rule_pattern \<and> has_origin rule_authorized \<and> has_origin rule_any
   \<and> \<not> rule_matches ctx_root ''http://authorized.com'' rule_pattern
   \<and> rule_matches ctx_root ''http://authorized.com'' rule_authorized
   \<and> rule_matches ctx_root ''http://authorized.com'' rule_any
   \<and> RequestResource [rule_pattern, rule_authorized, rule_any] ctx_root ''http://authorized.com''
       = Inr (Some rule_authorized)
   \<and> RequestResource [rule_authorized, rule_pattern] ctx_api ''https://a.org''
       = Inr (Some rule_pattern)
   \<and> RequestResource [rule_authorized, rule_pattern] ctx_api_off ''https://a.org''
       = Inr None"
proof -
  have a: "\<forall>res\<in>set [rule_pattern, rule_authorized, rule_any]. has_origin res"
    and b: "\<forall>res\<in>set [rule_authorized, rule_pattern]. has_origin res"
    by (simp_all add: ex_has_origin)
  show ?thesis
    using RequestResource_first_match [OF a, of ctx_root "''http://authorized.com''"]
      RequestResource_first_match [OF b, of ctx_api "''https://a.org''"]
      RequestResource_first_match [OF b, of ctx_api_off "''https://a.org''"]
    by (simp add: ex_has_origin ex_matches ex_matches_api)
qed

section \<open>Header composition\<close>

lemma Itoa_600: "Itoa 600 = ''600''"
  by code_simp

text \<open>
  Claim C8. \<open>FillHeaders\<close> leaves \<open>Access-Control-Expose-Headers\<close> as it finds it when
  the rule's \<open>Expose\<close> list is empty and sets it to the joined list otherwise; it sets
  \<open>Access-Control-Max-Age\<close> to the decimal string of \<open>MaxAge\<close> when that is strictly
  positive and leaves it otherwise; it sets \<open>Access-Control-Allow-Credentials\<close> to
  \<open>"true"\<close> when \<open>Credentials\<close> is true and leaves it otherwise, so it never writes
  \<open>"false"\<close>.
\<close>

theorem FillHeaders_optional:
  "FillHeaders res origin dest acExposeHeaders =
     (if Expose res = [] then dest acExposeHeaders else Some [Join (Expose res) '', ''])
   \<and> FillHeaders res origin dest acMaxAge =
     (if 0 < MaxAge res then Some [Itoa (MaxAge res)] else dest acMaxAge)
   \<and> FillHeaders res origin dest acAllowCredentials =
     (if Credentials res then Some [''true''] else dest acAllowCredentials)"
  by (simp add: FillHeaders_def Header_Set_def header_names Let_def)

text \<open>
  On an empty header map, the rule of the tests gives none of the three headers and the
  pattern rule gives all three.
\<close>

theorem FillHeaders_optional_witness:
  "FillHeaders rule_authorized ''http://authorized.com'' Map.empty acExposeHeaders = None
   \<and> FillHeaders rule_authorized ''http://authorized.com'' Map.empty acMaxAge = None
   \<and> FillHeaders rule_authorized ''http://authorized.com'' Map.empty acAllowCredentials = None
   \<and> FillHeaders rule_pattern ''https://a.org'' Map.empty acExposeHeaders = Some [''X-Time, X-Id'']
   \<and> FillHeaders rule_pattern ''https://a.org'' Map.empty acMaxAge = Some [''600'']
   \<and> FillHeaders rule_pattern ''https://a.org'' Map.empty acAllowCredentials = Some [''true'']"
  using FillHeaders_optional [of rule_authorized "''http://authorized.com''" Map.empty]
    FillHeaders_optional [of rule_pattern "''https://a.org''" Map.empty]
  by (simp add: examples Itoa_600)

section \<open>Requests without an origin\<close>

text \<open>
  Claim C6. For a request whose \<open>Origin\<close> and \<open>X-Origin\<close> headers are both absent or
  empty (\<open>Get\<close> gives the empty string for both), the middleware hands the response
  writer to the next handler exactly as it received it: it sets no
  \<open>Access-Control-*\<close> response header, nor any other. The functions of package
  \<open>strings\<close> are not reached.
\<close>

theorem no_origin_no_cors_headers:
  assumes "Header_Get (Header req) ''Origin'' = ''''"
    and "Header_Get (Header req) ''X-Origin'' = ''''"
  shows "Middleware strings spec h ctx rw req =
           Inr (h ctx rw (apply_Vary (PathResource spec (URL_Path req)) req))"
  using assms by (intro Middleware_no_origin) (simp add: effective_origin_def)

text \<open>
  A request for \<open>/\<close> without origin, under a rule for \<open>/\<close>: the next handler finds
  neither \<open>Access-Control-Allow-Origin\<close> nor \<open>Access-Control-Allow-Methods\<close>.
\<close>

theorem no_origin_no_cors_headers_witness:
  "Header_Get (Header plain_request) ''Origin'' = ''''
   \<and> Header_Get (Header plain_request) ''X-Origin'' = ''''
   \<and> PathResource [rule_authorized] (URL_Path plain_request) = Some rule_authorized
   \<and> Middleware ascii_strings [rule_authorized] (response_header acAllowOrigin) ctx_root rw_empty plain_request
       = Inr None
   \<and> Middleware ascii_strings [rule_authorized] (response_header acAllowMethods) ctx_root rw_empty plain_request
       = Inr None"
proof -
  have a: "Header_Get (Header plain_request) ''Origin'' = ''''"
    and b: "Header_Get (Header plain_request) ''X-Origin'' = ''''"
    by (simp_all add: examples header_functions)
  have c: "PathResource [rule_authorized] (URL_Path plain_request) = Some rule_authorized"
    by (simp add: examples)
  show ?thesis
    using no_origin_no_cors_headers [OF a b, where strings = ascii_strings
          and spec = "[rule_authorized]" and h = "response_header acAllowOrigin"
          and ctx = ctx_root and rw = rw_empty]
      no_origin_no_cors_headers [OF a b, where strings = ascii_strings
          and spec = "[rule_authorized]" and h = "response_header acAllowMethods"
          and ctx = ctx_root and rw = rw_empty]
    by (simp add: a b c) (simp add: examples)
qed

section \<open>The example requests\<close>

text \<open>The header values of the example requests are ASCII strings.\<close>

lemma ex_is_ascii:
  "is_ascii ''http://authorized.com''" "is_ascii ''GET''" "is_ascii ''DELETE''"
  "is_ascii ''foo''" "is_ascii ''foo, bar''" "is_ascii ''garbage''"
  by (simp_all add: is_ascii_def)

lemma ex_RequestResource:
  "RequestResource [rule_authorized] ctx_root ''http://authorized.com'' = Inr (Some rule_authorized)"
  "RequestResource [rule_any] ctx_root ''http://authorized.com'' = Inr (Some rule_any)"
  by (simp_all add: RequestResource_def OriginAllowed_def PathMatches_def examples)

lemma ex_effective_origin:
  "effective_origin (Header get_request) = ''http://authorized.com''"
  "effective_origin (Header (preflight_request m hs)) = ''http://authorized.com''"
  "effective_origin (Header plain_request) = ''''"
  by (simp_all add: effective_origin_def header_functions examples)

lemma ex_requested_method:
  "requested_method ascii_strings (preflight_request ''GET'' hs) = ''GET''"
  "requested_method ascii_strings (preflight_request ''DELETE'' hs) = ''DELETE''"
  by (simp_all add: requested_method_def header_functions header_names examples
        ascii_strings_def ascii_ToUpper_def upper_byte_def)

lemma ex_requested_headers:
  "requested_headers ascii_strings (preflight_request m [''foo, bar'']) = [''foo'', ''bar'']"
  "requested_headers ascii_strings (preflight_request m [''foo'']) = [''foo'']"
  "requested_headers ascii_strings (preflight_request m []) = []"
  by (simp_all add: requested_headers_def header_functions header_names examples
        ascii_strings_def ascii_TrimSpace_def isSpace_def)

lemma ex_is_preflight:
  "is_preflight ascii_strings (preflight_request ''GET'' hs)"
  "is_preflight ascii_strings (preflight_request ''DELETE'' hs)"
  "\<not> is_preflight strings get_request"
  by (simp_all add: is_preflight_def ex_requested_method) (simp_all add: examples)

section \<open>Preflight requests\<close>

text \<open>
  Claim C1 says that a preflight is accepted only if every requested header is among the
  rule's headers (or the rule has \<open>*\<close>). The code does not do that: by
  \<open>headers_ok_Cons\<close> the first requested header alone decides. Here the rule allows
  \<open>foo\<close>, the preflight asks for \<open>foo, bar\<close>, and the middleware accepts it: the next
  handler finds \<open>Access-Control-Allow-Headers: foo, bar\<close>.
\<close>

theorem second_requested_header_unchecked:
  "is_preflight ascii_strings (preflight_request ''GET'' [''foo, bar''])
   \<and> RequestResource [rule_authorized] ctx_root
        (effective_origin (Header (preflight_request ''GET'' [''foo, bar''])))
       = Inr (Some rule_authorized)
   \<and> requested_method ascii_strings (preflight_request ''GET'' [''foo, bar'']) \<in> set (Methods rule_authorized)
   \<and> requested_headers ascii_strings (preflight_request ''GET'' [''foo, bar'']) = [''foo'', ''bar'']
   \<and> Headers rule_authorized = [''foo'']
   \<and> Middleware ascii_strings [rule_authorized] (response_header acAllowHeaders) ctx_root rw_empty
        (preflight_request ''GET'' [''foo, bar''])
       = Inr (Some [''foo, bar''])"
proof -
  let ?req = "preflight_request ''GET'' [''foo, bar'']"
  have acc: "preflight_accepted ascii_strings rule_authorized ?req"
    by (simp add: preflight_accepted_def ex_is_preflight ex_requested_method
          ex_requested_headers headers_ok_Cons) (simp add: examples)
  have m: "requested_method ascii_strings ?req \<in> set (Methods rule_authorized)"
    by (simp add: ex_requested_method) (simp add: examples)
  have "Middleware ascii_strings [rule_authorized] (response_header acAllowHeaders) ctx_root rw_empty ?req
          = Inr (Some [''foo, bar''])"
    by (subst Middleware_matched [where res = rule_authorized])
       (simp_all add: ex_effective_origin ex_RequestResource acc response_header_def
          FillHeaders_AllowHeaders Header_Set_def ex_requested_headers)
  then show ?thesis
    by (simp add: ex_is_preflight ex_effective_origin ex_RequestResource m ex_requested_headers)
       (simp add: examples)
qed

text \<open>
  Claim C2 as stated fails: a preflight for \<open>DELETE\<close> under a rule that allows \<open>GET\<close>
  only. The response had no header; the next handler finds
  \<open>Access-Control-Allow-Origin\<close> and \<open>Access-Control-Allow-Methods\<close> set.
\<close>

theorem disallowed_method_counterexample:
  "is_preflight ascii_strings (preflight_request ''DELETE'' [])
   \<and> RequestResource [rule_authorized] ctx_root
        (effective_origin (Header (preflight_request ''DELETE'' [])))
       = Inr (Some rule_authorized)
   \<and> requested_method ascii_strings (preflight_request ''DELETE'' []) \<notin> set (Methods rule_authorized)
   \<and> rw_Header rw_empty acAllowOrigin = None
   \<and> rw_Header rw_empty acAllowMethods = None
   \<and> Middleware ascii_strings [rule_authorized] (response_header acAllowOrigin) ctx_root rw_empty
        (preflight_request ''DELETE'' [])
       = Inr (Some [''http://authorized.com''])
   \<and> Middleware ascii_strings [rule_authorized] (response_header acAllowMethods) ctx_root rw_empty
        (preflight_request ''DELETE'' [])
       = Inr (Some [''GET''])"
proof -
  let ?req = "preflight_request ''DELETE'' []"
  have m: "requested_method ascii_strings ?req \<notin> set (Methods rule_authorized)"
    by (simp add: ex_requested_method) (simp add: examples)
  then have acc: "\<not> preflight_accepted ascii_strings rule_authorized ?req"
    by (simp add: preflight_accepted_def)
  have "Middleware ascii_strings [rule_authorized] (response_header acAllowOrigin) ctx_root rw_empty ?req
          = Inr (Some [''http://authorized.com''])"
    by (subst Middleware_matched [where res = rule_authorized])
       (simp_all add: ex_effective_origin ex_RequestResource acc response_header_def
          FillHeaders_AllowOrigin)
  moreover have "Middleware ascii_strings [rule_authorized] (response_header acAllowMethods) ctx_root rw_empty ?req
          = Inr (Some [''GET''])"
    by (subst Middleware_matched [where res = rule_authorized])
       (simp_all add: ex_effective_origin ex_RequestResource acc response_header_def
          FillHeaders_AllowMethods, simp add: examples)
  ultimately show ?thesis
    using m by (simp add: ex_is_preflight ex_effective_origin ex_RequestResource)
       (simp add: examples)
qed

text \<open>
  Claim C2, amended. For every preflight request whose origin matched a rule and whose
  requested method, in upper case (as \<open>strings.ToUpper\<close> gives it, whatever that
  function is), is not among the rule's methods, the middleware
  treats the request as a simple request of that origin: it composes the rule's headers
  with \<open>FillHeaders\<close> for the request's own origin (so \<open>Access-Control-Allow-Origin\<close> is
  that origin, never a substituted \<open>*\<close>), leaves \<open>Access-Control-Allow-Headers\<close> as it
  was, and calls the next handler.
\<close>

theorem disallowed_method_simple_headers:
  assumes "effective_origin (Header req) \<noteq> ''''"
    and "RequestResource spec ctx (effective_origin (Header req)) = Inr (Some res)"
    and "is_preflight strings req"
    and "requested_method strings req \<notin> set (Methods res)"
  shows "Middleware strings spec h ctx rw req =
           Inr (h ctx
                  (rw\<lparr>rw_Header := FillHeaders res (effective_origin (Header req)) (rw_Header rw)\<rparr>)
                  (apply_Vary (Some res) req))
         \<and> FillHeaders res (effective_origin (Header req)) (rw_Header rw) acAllowHeaders
             = rw_Header rw acAllowHeaders
         \<and> FillHeaders res (effective_origin (Header req)) (rw_Header rw) acAllowOrigin
             = Some [effective_origin (Header req)]"
proof -
  from assms(4) have "\<not> preflight_accepted strings res req"
    by (simp add: preflight_accepted_def)
  with Middleware_matched [OF assms(1,2), where strings = strings and h = h and rw = rw]
  show ?thesis
    by (simp add: FillHeaders_AllowHeaders FillHeaders_AllowOrigin)
qed

text \<open>
  A preflight for \<open>DELETE\<close> with requested header \<open>foo\<close>: the next handler finds no
  \<open>Access-Control-Allow-Headers\<close>.
\<close>

theorem disallowed_method_simple_headers_witness:
  "effective_origin (Header (preflight_request ''DELETE'' [''foo''])) = ''http://authorized.com''
   \<and> RequestResource [rule_authorized] ctx_root ''http://authorized.com'' = Inr (Some rule_authorized)
   \<and> is_preflight ascii_strings (preflight_request ''DELETE'' [''foo''])
   \<and> requested_method ascii_strings (preflight_request ''DELETE'' [''foo'']) \<notin> set (Methods rule_authorized)
   \<and> Middleware ascii_strings [rule_authorized] (response_header acAllowHeaders) ctx_root rw_empty
        (preflight_request ''DELETE'' [''foo''])
       = Inr None"
proof -
  let ?req = "preflight_request ''DELETE'' [''foo'']"
  have a: "effective_origin (Header ?req) \<noteq> ''''"
    by (simp add: ex_effective_origin)
  have b: "RequestResource [rule_authorized] ctx_root (effective_origin (Header ?req))
             = Inr (Some rule_authorized)"
    by (simp add: ex_effective_origin ex_RequestResource)
  have c: "is_preflight ascii_strings ?req"
    by (simp add: ex_is_preflight)
  have d: "requested_method ascii_strings ?req \<notin> set (Methods rule_authorized)"
    by (simp add: ex_requested_method) (simp add: examples)
  from disallowed_method_simple_headers [OF a b c d, where h = "response_header acAllowHeaders"
      and rw = rw_empty]
  have "Middleware ascii_strings [rule_authorized] (response_header acAllowHeaders) ctx_root rw_empty ?req
          = Inr (rw_Header rw_empty acAllowHeaders)"
    by (simp add: response_header_def)
  then show ?thesis
    using d by (simp add: ex_effective_origin ex_RequestResource c) (simp add: examples)
qed

section \<open>The Vary header\<close>

text \<open>
  Claim C3 says that the middleware appends to the Vary header of the response. The code
  appends to the header map of the request. Here a \<open>GET\<close> from the authorized origin
  matches the rule; the next handler finds no \<open>Vary\<close> in the response headers and
  \<open>Vary: Origin\<close> in the request headers. The run does not depend on the functions of
  package \<open>strings\<close>.
\<close>

theorem Vary_stored_in_request:
  "RequestResource [rule_authorized] ctx_root (effective_origin (Header get_request))
     = Inr (Some rule_authorized)
   \<and> Middleware strings [rule_authorized] (response_header ''Vary'') ctx_root rw_empty get_request
       = Inr None
   \<and> Middleware strings [rule_authorized] (request_header ''Vary'') ctx_root rw_empty get_request
       = Inr (Some [''Origin''])"
proof -
  have acc: "\<not> preflight_accepted strings rule_authorized get_request"
    by (simp add: preflight_accepted_def ex_is_preflight)
  have "Middleware strings [rule_authorized] (response_header ''Vary'') ctx_root rw_empty get_request
          = Inr None"
    by (subst Middleware_matched [where res = rule_authorized])
       (simp_all add: ex_effective_origin ex_RequestResource acc response_header_def
          FillHeaders_Vary, simp add: examples)
  moreover have "Middleware strings [rule_authorized] (request_header ''Vary'') ctx_root rw_empty get_request
          = Inr (Some [''Origin''])"
    by (subst Middleware_matched [where res = rule_authorized])
       (simp_all add: ex_effective_origin ex_RequestResource acc request_header_def
          apply_Vary_def Header_index_def, simp add: examples)
  ultimately show ?thesis
    by (simp add: ex_effective_origin ex_RequestResource)
qed

text \<open>
  Claim C4 says that the middleware never modifies the incoming request. Here a request
  without origin and without a \<open>Vary\<close> header matches the rule by its path; the request
  that the next handler receives has \<open>Vary: Origin\<close> in its header map, whatever the
  functions of package \<open>strings\<close> are.
\<close>

theorem request_header_map_modified:
  "Header plain_request ''Vary'' = None
   \<and> Middleware strings [rule_authorized] (request_header ''Vary'') ctx_root rw_empty plain_request
       = Inr (Some [''Origin''])"
proof -
  have "Middleware strings [rule_authorized] (request_header ''Vary'') ctx_root rw_empty plain_request
          = Inr (Some [''Origin''])"
    by (subst Middleware_no_origin)
       (simp_all add: ex_effective_origin request_header_def apply_Vary_def Header_index_def,
        simp add: examples)
  then show ?thesis by (simp add: examples)
qed

section \<open>The allowed origin\<close>

text \<open>
  Claim C5 as stated fails: the rule's origin is \<open>*\<close> and it does not allow credentials,
  the request is a simple \<open>GET\<close>, and the next handler finds the request's origin in
  \<open>Access-Control-Allow-Origin\<close>, not \<open>*\<close>.
\<close>

theorem wildcard_origin_counterexample:
  "Origin rule_any = ''*'' \<and> \<not> Credentials rule_any
   \<and> RequestResource [rule_any] ctx_root (effective_origin (Header get_request))
       = Inr (Some rule_any)
   \<and> Middleware ascii_strings [rule_any] (response_header acAllowOrigin) ctx_root rw_empty get_request
       = Inr (Some [''http://authorized.com''])"
proof -
  have acc: "\<not> preflight_accepted ascii_strings rule_any get_request"
    by (simp add: preflight_accepted_def ex_is_preflight)
  have "Middleware ascii_strings [rule_any] (response_header acAllowOrigin) ctx_root rw_empty get_request
          = Inr (Some [''http://authorized.com''])"
    by (subst Middleware_matched [where res = rule_any])
       (simp_all add: ex_effective_origin ex_RequestResource acc response_header_def
          FillHeaders_AllowOrigin)
  then show ?thesis
    by (simp add: ex_effective_origin ex_RequestResource) (simp add: examples)
qed

text \<open>
  Claim C5, amended. For every request whose origin matched a rule, the next handler is
  called with a response writer whose \<open>Access-Control-Allow-Origin\<close> is the literal \<open>*\<close>
  when the request is a preflight that the middleware accepts (with the upper case and
  the trimming of package \<open>strings\<close>, whatever they are), the rule's origin is \<open>*\<close>
  and the rule does not allow credentials; in every other case, so for every request
  that is not an accepted preflight and whenever the rule allows credentials, it is the
  request's origin as received.
\<close>

theorem allow_origin_value:
  assumes "effective_origin (Header req) \<noteq> ''''"
    and "RequestResource spec ctx (effective_origin (Header req)) = Inr (Some res)"
  shows "\<exists>rw' req'.
           Middleware strings spec h ctx rw req = Inr (h ctx rw' req')
           \<and> rw_Header rw' acAllowOrigin =
               Some [if preflight_accepted strings res req \<and> Origin res = ''*'' \<and> \<not> Credentials res
                     then ''*'' else effective_origin (Header req)]"
proof -
  let ?origin = "if preflight_accepted strings res req \<and> Origin res = ''*'' \<and> \<not> Credentials res
                 then ''*'' else effective_origin (Header req)"
  let ?dest = "if preflight_accepted strings res req
               then Header_Set (rw_Header rw) acAllowHeaders (Join (requested_headers strings req) '', '')
               else rw_Header rw"
  let ?rw = "rw\<lparr>rw_Header := FillHeaders res ?origin ?dest\<rparr>"
  have "Middleware strings spec h ctx rw req = Inr (h ctx ?rw (apply_Vary (Some res) req))"
    using assms by (rule Middleware_matched)
  moreover have "rw_Header ?rw acAllowOrigin = Some [?origin]"
    by (simp add: FillHeaders_AllowOrigin del: split_paired_Ex)
  ultimately show ?thesis by blast
qed

text \<open>An accepted preflight under the rule for any origin: the header is \<open>*\<close>.\<close>

theorem allow_origin_value_witness:
  "RequestResource [rule_any] ctx_root
       (effective_origin (Header (preflight_request ''GET'' [''foo''])))
     = Inr (Some rule_any)
   \<and> preflight_accepted ascii_strings rule_any (preflight_request ''GET'' [''foo''])
   \<and> Origin rule_any = ''*'' \<and> \<not> Credentials rule_any
   \<and> (\<exists>rw' req'.
         Middleware ascii_strings [rule_any] (response_header acAllowOrigin) ctx_root rw_empty
             (preflight_request ''GET'' [''foo''])
           = Inr (response_header acAllowOrigin ctx_root rw' req')
         \<and> rw_Header rw' acAllowOrigin = Some [''*''])"
proof -
  let ?req = "preflight_request ''GET'' [''foo'']"
  have a: "effective_origin (Header ?req) \<noteq> ''''"
    by (simp add: ex_effective_origin)
  have b: "RequestResource [rule_any] ctx_root (effective_origin (Header ?req)) = Inr (Some rule_any)"
    by (simp add: ex_effective_origin ex_RequestResource)
  have c: "preflight_accepted ascii_strings rule_any ?req"
    by (simp add: preflight_accepted_def ex_is_preflight ex_requested_method
          ex_requested_headers headers_ok_Cons) (simp add: examples)
  have d: "Origin rule_any = ''*'' \<and> \<not> Credentials rule_any"
    by (simp add: examples)
  from allow_origin_value [OF a b, where strings = ascii_strings
      and h = "response_header acAllowOrigin" and rw = rw_empty]
  show ?thesis by (simp add: b c d)
qed

section \<open>The JWT middleware and OPTIONS requests\<close>

lemma AuthOptions_jwt_defaults: "AuthOptions (jwt_defaults spec) = AuthOptions spec"
  by (simp add: jwt_defaults_def Let_def)

lemma GetToken_garbage:
  "GetToken jwt_lib_reject (garbage_token_request m) (jwt_defaults jwt_spec_plain)
     = Inl ''Malformed token header''"
  by (simp add: GetToken_def jwt_defaults_def jwt_spec_plain_def jwt_lib_reject_def
        garbage_token_request_def root_request_def header_functions Let_def)

text \<open>
  Claim C9. For every request with method \<open>OPTIONS\<close>, when \<open>AuthOptions\<close> is false the
  JWT middleware returns what the next handler returns for the context, response writer
  and request as they came, whatever \<open>GetToken\<close> would give for the request; so its
  result is never the 401 response.
\<close>

theorem OPTIONS_not_authenticated:
  assumes "\<not> AuthOptions spec" and "Method req = ''OPTIONS''"
  shows "jwt_Middleware lib StatusText spec h ctx rw req = Next (h None ctx rw req)
         \<and> (\<forall>body. jwt_Middleware lib StatusText spec h ctx rw req \<noteq> Send 401 body)"
  using assms by (simp add: jwt_Middleware_def Let_def AuthOptions_jwt_defaults)

text \<open>
  A request with a malformed token header: as \<open>OPTIONS\<close> it reaches the next handler, as
  \<open>GET\<close> it is answered with 401.
\<close>

theorem OPTIONS_not_authenticated_witness:
  "\<not> AuthOptions jwt_spec_plain
   \<and> Method (garbage_token_request ''OPTIONS'') = ''OPTIONS''
   \<and> GetToken jwt_lib_reject (garbage_token_request ''OPTIONS'') (jwt_defaults jwt_spec_plain)
       = Inl ''Malformed token header''
   \<and> jwt_Middleware jwt_lib_reject StatusText_short jwt_spec_plain given_token ctx_root rw_empty
        (garbage_token_request ''OPTIONS'')
       = Next None
   \<and> jwt_Middleware jwt_lib_reject StatusText_short jwt_spec_plain given_token ctx_root rw_empty
        (garbage_token_request ''GET'')
       = Send 401 ''Unauthorized''"
proof -
  have a: "\<not> AuthOptions jwt_spec_plain"
    by (simp add: jwt_spec_plain_def)
  have b: "Method (garbage_token_request ''OPTIONS'') = ''OPTIONS''"
    by (simp add: garbage_token_request_def root_request_def)
  have c: "jwt_Middleware jwt_lib_reject StatusText_short jwt_spec_plain given_token ctx_root rw_empty
             (garbage_token_request ''GET'') = Send 401 ''Unauthorized''"
    by (simp add: jwt_Middleware_def Let_def GetToken_garbage AuthOptions_jwt_defaults
          StatusText_short_def)
       (simp add: garbage_token_request_def root_request_def)
  from OPTIONS_not_authenticated [OF a b, of jwt_lib_reject StatusText_short given_token ctx_root rw_empty]
  show ?thesis
    by (simp add: a b c GetToken_garbage given_token_def)
qed

section \<open>RequireHeader\<close>

text \<open>
  Claim C10. For every request, \<open>RequireHeader\<close> answers with \<open>failureStatus\<close> and its
  status text if the path is in scope and the header fails the check, and calls the next
  handler in every other case; so it answers with the failure exactly when the path is in
  scope and the header fails.
\<close>

theorem RequireHeader_failure_iff:
  "RequireHeader canonicalKey StatusText pathPattern name valuePattern failureStatus h req =
     (if path_in_scope pathPattern req
         \<and> header_fails valuePattern (Header_Get (Header req) (canonicalKey name))
      then Send failureStatus (StatusText failureStatus)
      else Next (h req))
   \<and> (RequireHeader canonicalKey StatusText pathPattern name valuePattern failureStatus h req
        = Send failureStatus (StatusText failureStatus))
     = (path_in_scope pathPattern req
        \<and> header_fails valuePattern (Header_Get (Header req) (canonicalKey name)))"
  by (auto simp: RequireHeader_def path_in_scope_def header_fails_def Let_def
        split: option.splits)

text \<open>
  Under \<open>/api/\<close> a missing header and a wrong value are answered with 403; the right
  value, and any value when there is no value pattern, reach the next handler; so does a
  request for a path out of scope.
\<close>

theorem RequireHeader_failure_iff_witness:
  "RequireHeader (\<lambda>k. k) StatusText_short api_paths ''X-Token'' secret_value 403 seen_path
      (api_request Map.empty) = Send 403 ''Forbidden''
   \<and> RequireHeader (\<lambda>k. k) StatusText_short api_paths ''X-Token'' secret_value 403 seen_path
      (api_request [''X-Token'' \<mapsto> [''guess'']]) = Send 403 ''Forbidden''
   \<and> RequireHeader (\<lambda>k. k) StatusText_short api_paths ''X-Token'' secret_value 403 seen_path
      (api_request [''X-Token'' \<mapsto> [''secret'']]) = Next ''/api/users''
   \<and> RequireHeader (\<lambda>k. k) StatusText_short api_paths ''X-Token'' None 403 seen_path
      (api_request [''X-Token'' \<mapsto> [''guess'']]) = Next ''/api/users''
   \<and> RequireHeader (\<lambda>k. k) StatusText_short api_paths ''X-Token'' secret_value 403 seen_path
      plain_request = Next ''/''"
  using RequireHeader_failure_iff [of "\<lambda>k. k" StatusText_short api_paths "''X-Token''" secret_value 403 seen_path "api_request Map.empty"]
    RequireHeader_failure_iff [of "\<lambda>k. k" StatusText_short api_paths "''X-Token''" secret_value 403 seen_path "api_request [''X-Token'' \<mapsto> [''guess'']]"]
    RequireHeader_failure_iff [of "\<lambda>k. k" StatusText_short api_paths "''X-Token''" secret_value 403 seen_path "api_request [''X-Token'' \<mapsto> [''secret'']]"]
    RequireHeader_failure_iff [of "\<lambda>k. k" StatusText_short api_paths "''X-Token''" None 403 seen_path "api_request [''X-Token'' \<mapsto> [''guess'']]"]
    RequireHeader_failure_iff [of "\<lambda>k. k" StatusText_short api_paths "''X-Token''" secret_value 403 seen_path plain_request]
  by (simp add: path_in_scope_def header_fails_def api_paths_def secret_value_def
        api_request_def plain_request_def root_request_def header_functions HasPrefix_def
        StatusText_short_def seen_path_def)

end
